theory Spec2Isabelle
  imports Complex_Main "HOL-Library.Word" "HOL-Library.Signed_Division"
begin

section \<open>Basic types\<close>

text \<open>
  Go's \<open>int\<close> is a 64-bit two's-complement integer on the platforms the client targets.
  A Go \<open>string\<close> is a sequence of bytes; \<open>char\<close> is an 8-bit value, so \<open>string\<close> models it
  and \<open>[]byte\<close> alike.  An \<open>error\<close> value carries its message; a run-time panic is kept
  apart from it.
\<close>

type_synonym go_int = "64 word"
type_synonym byte = char

datatype error = Error string | Panic string

text \<open>The message of an error value, Go's \<open>err.Error()\<close>.\<close>

fun err_msg :: "error \<Rightarrow> string" where
  "err_msg (Error m) = m"
| "err_msg (Panic m) = m"

text \<open>
  Go's \<open>/\<close> and \<open>%\<close> on signed integers truncate towards zero and wrap around in the one
  overflowing case (the most negative value divided by \<open>-1\<close>).  A zero divisor panics;
  the callers below test for it before they divide.
\<close>

definition go_quot :: "go_int \<Rightarrow> go_int \<Rightarrow> go_int" where
  "go_quot a b = word_of_int (sint a sdiv sint b)"

definition go_rem :: "go_int \<Rightarrow> go_int \<Rightarrow> go_int" where
  "go_rem a b = word_of_int (sint a smod sint b)"

section \<open>Torrent metadata (torrent/decoder.go)\<close>

record file_t =
  length_file :: go_int
  path :: "string list"

record Info =
  Announce :: string
  AnnounceList :: "string list list"
  PieceSize :: go_int
  Length :: go_int
  Name :: string
  files :: "file_t list"
  PieceHashes :: "byte list list"
  InfoHash :: "byte list"
  ChunkSize :: go_int

definition chunkSize :: go_int where
  "chunkSize = 16384"

definition CalculateLastPieceSize :: "Info \<Rightarrow> error + (go_int \<times> go_int)" where
  "CalculateLastPieceSize info =
     (if PieceSize info = 0 then Inl (Panic ''integer divide by zero'')
      else
        let lastPieceSize = go_rem (Length info) (PieceSize info);
            numberOfPieces = go_quot (Length info) (PieceSize info)
        in if lastPieceSize \<noteq> 0
           then Inr (lastPieceSize, numberOfPieces + 1)
           else Inr (PieceSize info, numberOfPieces))"

text \<open>The Go slice expression \<open>s[lo:hi]\<close>, for \<open>0 \<le> lo \<le> hi \<le> len(s)\<close>.\<close>

definition substr :: "string \<Rightarrow> int \<Rightarrow> int \<Rightarrow> string" where
  "substr s lo hi = take (nat (hi - lo)) (drop (nat lo) s)"

text \<open>
  The loop of \<open>pieceHashes\<close>: \<open>for i := 0; i <= len-20; i += 20\<close>.  The counter never
  exceeds the length of the string, so it cannot overflow and is an unbounded integer here.
\<close>

function pieceHashes_loop :: "string \<Rightarrow> int \<Rightarrow> byte list list \<Rightarrow> byte list list" where
  "pieceHashes_loop pieces i hashes =
     (if i \<le> int (length pieces) - 20
      then pieceHashes_loop pieces (i + 20) (hashes @ [substr pieces i (i + 20)])
      else hashes)"
  by pat_completeness auto
termination
  by (relation "measure (\<lambda>(pieces, i, hashes). nat (int (length pieces) - i))") auto

declare pieceHashes_loop.simps [simp del]

definition pieceHashes :: "string \<Rightarrow> error + byte list list" where
  "pieceHashes pieces =
     (if int (length pieces) mod 20 \<noteq> 0
      then Inl (Error ''piece hash has to be 20 bytes long'')
      else Inr (pieceHashes_loop pieces 0 []))"

subsection \<open>Bencode values and the collaborators outside the sources\<close>

text \<open>
  Modelled from the spec: the bencode parser (\<open>NewParser\<close>, \<open>Parse\<close>) and the \<open>Bencode\<close>
  node types \<open>bInt\<close>, \<open>bStr\<close>, \<open>bList\<close>, \<open>bDict\<close> with the method \<open>get\<close> are not among
  the sources; section 6 only names the decoder's result.  The node types are taken from
  the way \<open>decoder.go\<close> reads them (\<open>.value\<close> of an integer, a string, a slice of nodes),
  and a dictionary is an association list whose \<open>get\<close> yields the first entry of a key,
  or nothing (Go's \<open>nil\<close>) when the key is absent.
\<close>

datatype Bencode =
    bInt go_int
  | bStr string
  | bList "Bencode list"
  | bDict "(string \<times> Bencode) list"

definition get :: "(string \<times> Bencode) list \<Rightarrow> string \<Rightarrow> Bencode option" where
  "get dict key = map_of dict key"

text \<open>
  The remaining collaborators are parameters of the model, gathered in one record:
  the parser, the two printers of a bencode node, SHA-1 of the standard library
  (\<open>sha1.New\<close>, \<open>io.WriteString\<close>, \<open>Sum(nil)\<close> in one step), the standard library's URL
  functions, the file system, the HTTP client, the decoder of the tracker's answer and
  the two payload decoders of the peer package.
\<close>

record URL =
  Scheme :: string
  Host :: string
  Path :: string
  RawQuery :: string

text \<open>\<open>url.Values\<close> is a map from a key to the list of its values.\<close>

type_synonym Values = "(string \<times> string list) list"

record Response =
  StatusCode :: int
  Body :: "error + string"

text \<open>
  Modelled from the spec: \<open>torrent.PeerInfo\<close> and the tracker answer are not among the
  sources; section 6 describes a peer as a pair of IP address and port.
\<close>

type_synonym PeerInfo = "string \<times> nat"

record TrackerRsp =
  PeersInfo :: "PeerInfo list"

type_synonym u32 = "32 word"

record extern =
  Parse :: "string \<Rightarrow> error + Bencode"
  String :: "Bencode \<Rightarrow> string"
  PrettyString :: "Bencode \<Rightarrow> string"
  sha1 :: "string \<Rightarrow> byte list"
  url_Parse :: "string \<Rightarrow> string + URL"
  Encode :: "Values \<Rightarrow> string"
  url_String :: "URL \<Rightarrow> string"
  ReadFile :: "string \<Rightarrow> error + string"
  http_Get :: "string \<Rightarrow> error + Response"
  TrackerRspDecode :: "string \<Rightarrow> error + TrackerRsp"
  decodeRequest :: "byte list \<Rightarrow> u32 \<times> u32 \<times> u32"
  decodePiece :: "byte list \<Rightarrow> u32 \<times> u32 \<times> byte list"

subsection \<open>Decode and its helpers\<close>

definition wrongTypeError :: "string \<Rightarrow> string \<Rightarrow> error" where
  "wrongTypeError str t = Error (''wrong type, '' @ ''-'' @ str @ ''- has to be'' @ t)"

definition fromDict :: "(string \<times> Bencode) list \<Rightarrow> string \<Rightarrow> error + Bencode" where
  "fromDict dict key =
     (case get dict key of
        None \<Rightarrow> Inl (Error (key @ '' is missing in the dictionary''))
      | Some v \<Rightarrow> Inr v)"

text \<open>\<open>intValue\<close> returns the value, whether the key is present, and the error if any.\<close>

definition intValue :: "(string \<times> Bencode) list \<Rightarrow> string \<Rightarrow> go_int \<times> bool \<times> error option" where
  "intValue dict key =
     (case fromDict dict key of
        Inl err \<Rightarrow> (0, False, Some err)
      | Inr benLength \<Rightarrow>
          (case benLength of
             bInt v \<Rightarrow> (v, True, None)
           | _ \<Rightarrow> (0, True, Some (wrongTypeError key ''int''))))"

definition strValue :: "(string \<times> Bencode) list \<Rightarrow> string \<Rightarrow> error + string" where
  "strValue dict key =
     (case fromDict dict key of
        Inl err \<Rightarrow> Inl err
      | Inr benName \<Rightarrow>
          (case benName of
             bStr v \<Rightarrow> Inr v
           | _ \<Rightarrow> Inl (wrongTypeError key ''string'')))"

text \<open>
  A \<open>nil\<close> slice and an empty one are both the empty list: the loops below only ever
  build a slice by \<open>append\<close>, so a slice they return is \<open>nil\<close> exactly when it is empty.
\<close>

fun announceList_loop :: "extern \<Rightarrow> Bencode list \<Rightarrow> string list list \<Rightarrow> error + string list list" where
  "announceList_loop X [] list = Inr list"
| "announceList_loop X (ls # rest) list =
     (case ls of
        bList l \<Rightarrow> announceList_loop X rest (list @ [map (PrettyString X) l])
      | _ \<Rightarrow> Inl (wrongTypeError ''announce-list entry'' ''list''))"

definition announceList :: "extern \<Rightarrow> (string \<times> Bencode) list \<Rightarrow> error + string list list" where
  "announceList X bencs =
     (case fromDict bencs ''announce-list'' of
        Inl err \<Rightarrow> Inr []
      | Inr benValue \<Rightarrow>
          (case benValue of
             bList benList \<Rightarrow> announceList_loop X benList []
           | _ \<Rightarrow> Inl (wrongTypeError ''announce-list entry'' ''list of lists'')))"

text \<open>
  The loop of \<open>files\<close>.  The type assertion \<open>v.(*bDict)\<close> has no \<open>ok\<close> result, so it
  panics on an entry that is not a dictionary; a \<open>path\<close> that is not a list makes the
  whole function return \<open>nil, nil\<close>.
\<close>

fun files_loop :: "extern \<Rightarrow> Bencode list \<Rightarrow> file_t list \<Rightarrow> error + file_t list" where
  "files_loop X [] fs = Inr fs"
| "files_loop X (v # rest) fs =
     (case v of
        bDict d \<Rightarrow>
          (case intValue d ''length'' of
             (len, _, Some err) \<Rightarrow> Inl err
           | (len, _, None) \<Rightarrow>
               (case fromDict d ''path'' of
                  Inl err \<Rightarrow> Inl err
                | Inr benPath \<Rightarrow>
                    (case benPath of
                       bList benPathList \<Rightarrow>
                         files_loop X rest
                           (fs @ [\<lparr>length_file = len, path = map (PrettyString X) benPathList\<rparr>])
                     | _ \<Rightarrow> Inr [])))
      | _ \<Rightarrow> Inl (Panic ''interface conversion: Bencode is not *bDict''))"

definition files' :: "extern \<Rightarrow> (string \<times> Bencode) list \<Rightarrow> error + file_t list" where
  "files' X infoDict =
     (case fromDict infoDict ''files'' of
        Inl err \<Rightarrow> Inr []
      | Inr benFiles \<Rightarrow>
          (case benFiles of
             bList benList \<Rightarrow> files_loop X benList []
           | _ \<Rightarrow> Inl (wrongTypeError ''files'' ''list'')))"

definition Decode :: "extern \<Rightarrow> string \<Rightarrow> error + Info" where
  "Decode X str =
     (case Parse X str of
        Inl err \<Rightarrow> Inl err
      | Inr ben \<Rightarrow>
     (case ben of
        bDict dict \<Rightarrow>
     (case strValue dict ''announce'' of
        Inl err \<Rightarrow> Inl err
      | Inr announce \<Rightarrow>
     (case announceList X dict of
        Inl err \<Rightarrow> Inl err
      | Inr announces \<Rightarrow>
     (case fromDict dict ''info'' of
        Inl err \<Rightarrow> Inl err
      | Inr info \<Rightarrow>
     (case info of
        bDict infoDict \<Rightarrow>
     (case intValue infoDict ''piece length'' of
        (pieceLength, _, Some err) \<Rightarrow> Inl err
      | (pieceLength, _, None) \<Rightarrow>
     (case intValue infoDict ''length'' of
        (len, True, Some err) \<Rightarrow> Inl err
      | (len, isSingleFile, _) \<Rightarrow>
     (case strValue infoDict ''name'' of
        Inl err \<Rightarrow> Inl err
      | Inr name \<Rightarrow>
     (case files' X infoDict of
        Inl err \<Rightarrow> Inl err
      | Inr fileList \<Rightarrow>
          if fileList = [] \<and> \<not> isSingleFile
          then Inl (Error ''No files to download in the torrent file'')
          else
     (case strValue infoDict ''pieces'' of
        Inl err \<Rightarrow> Inl err
      | Inr pieces \<Rightarrow>
     (case pieceHashes pieces of
        Inl err \<Rightarrow> Inl err
      | Inr pieceHash \<Rightarrow>
          let infoDictStr = String X (bDict infoDict);
              infoHash = sha1 X infoDictStr
          in Inr \<lparr>Announce = announce, AnnounceList = announces, PieceSize = pieceLength,
                   Length = len, Name = name, files = fileList, PieceHashes = pieceHash,
                   InfoHash = infoHash, ChunkSize = chunkSize\<rparr>))))))
      | _ \<Rightarrow> Inl (wrongTypeError ''info'' ''dictionary'')))))
      | _ \<Rightarrow> Inl (wrongTypeError ''Torrent content '' ''dictionary'')))"

section \<open>Tracker client (tracker/httpTracker.go)\<close>

text \<open>
  Modelled from the spec: the package \<open>init\<close> with \<open>State\<close> and \<open>Configuration\<close> is not
  among the sources; section 6 lists what the tracker request carries
  (\<open>localPeerID\<close>, \<open>port\<close>, \<open>uploaded\<close>, \<open>downloaded\<close>, \<open>left\<close>), and the field names
  are those the sources read.
\<close>

record State =
  Uploaded :: go_int
  Downloaded :: go_int
  Left :: go_int

record Configuration =
  TorrentPath :: string
  PeerID :: string
  Port :: go_int

record httpTracker =
  url :: string

text \<open>\<open>strconv.Itoa\<close>: the decimal digits of a number, with a minus sign when negative.\<close>

function showNat :: "nat \<Rightarrow> string" where
  "showNat n = (if n < 10 then [char_of (48 + n)] else showNat (n div 10) @ [char_of (48 + n mod 10)])"
  by pat_completeness auto
termination
  by (relation "measure (\<lambda>n. n)") auto

declare showNat.simps [simp del]

definition Itoa :: "go_int \<Rightarrow> string" where
  "Itoa i = (if sint i < 0 then ''-'' @ showNat (nat (- sint i)) else showNat (nat (sint i)))"

text \<open>\<open>Values.Add\<close> appends the value to the list already stored under the key.\<close>

fun Add :: "string \<Rightarrow> string \<Rightarrow> Values \<Rightarrow> Values" where
  "Add key v [] = [(key, [v])]"
| "Add key v ((k, vs) # rest) =
     (if k = key then (k, vs @ [v]) # rest else (k, vs) # Add key v rest)"

definition prepareURL :: "extern \<Rightarrow> State \<Rightarrow> string \<Rightarrow> go_int \<Rightarrow> Info \<Rightarrow> error + string" where
  "prepareURL X initState peerID port' info =
     (case url_Parse X (Announce info) of
        Inl err \<Rightarrow> Inl (Error (''Malformed URL: '' @ err))
      | Inr baseURL \<Rightarrow>
          let params = [];
              params = Add ''info_hash'' ''lol'' params;
              params = Add ''peer_id'' peerID params;
              params = Add ''port'' (Itoa port') params;
              params = Add ''compact'' ''1'' params;
              params = Add ''event'' ''started'' params;
              params = Add ''uploaded'' (Itoa (Uploaded initState)) params;
              params = Add ''downloaded'' (Itoa (Downloaded initState)) params;
              params = Add ''left'' (Itoa (Left initState)) params;
              baseURL = baseURL\<lparr>RawQuery := Encode X params\<rparr>
          in Inr (url_String X baseURL))"

definition NewTracker :: "extern \<Rightarrow> Info \<Rightarrow> State \<Rightarrow> Configuration \<Rightarrow> error + httpTracker" where
  "NewTracker X info initState conf =
     (case prepareURL X initState (PeerID conf) (Port conf) info of
        Inl err \<Rightarrow> Inl err
      | Inr u \<Rightarrow> Inr \<lparr>url = u\<rparr>)"

definition Peers :: "extern \<Rightarrow> httpTracker \<Rightarrow> error + PeerInfo list" where
  "Peers X t =
     (case http_Get X (url t) of
        Inl err \<Rightarrow> Inl err
      | Inr resp \<Rightarrow>
          if StatusCode resp \<noteq> 200
          then Inl (Error (''Can't reach http tracker '' @ url t))
          else
            (case Body resp of
               Inl err \<Rightarrow> Inl err
             | Inr bodyStr \<Rightarrow>
                 (case TrackerRspDecode X bodyStr of
                    Inl err \<Rightarrow> Inl (Error (bodyStr @ '' | '' @ err_msg err))
                  | Inr rsp \<Rightarrow> Inr (PeersInfo rsp))))"

section \<open>Program entry (main.go)\<close>

text \<open>
  What a run of \<open>main\<close> amounts to: it prints a line and returns, it panics, or it reaches
  the network layer with the first peer of the list.  The error of \<open>NewTracker\<close> is
  discarded, so a failed \<open>prepareURL\<close> leaves a \<open>nil\<close> tracker whose method call panics;
  \<open>peers[0]\<close> panics on an empty slice.
\<close>

datatype outcome = Returned string | Panicked string | Connected PeerInfo

definition main :: "extern \<Rightarrow> Configuration \<Rightarrow> State \<Rightarrow> outcome" where
  "main X conf initState =
     (case ReadFile X (TorrentPath conf) of
        Inl err \<Rightarrow> Returned (''File reading error '' @ err_msg err)
      | Inr data \<Rightarrow>
     (case Decode X data of
        Inl (Panic m) \<Rightarrow> Panicked m
      | Inl (Error m) \<Rightarrow> Returned m
      | Inr info \<Rightarrow>
     (case NewTracker X info initState conf of
        Inl _ \<Rightarrow> Panicked ''invalid memory address or nil pointer dereference''
      | Inr tracker \<Rightarrow>
     (case Peers X tracker of
        Inl err \<Rightarrow> Returned (err_msg err)
      | Inr peers \<Rightarrow>
     (case peers of
        [] \<Rightarrow> Panicked ''index out of range [0] with length 0''
      | peer0 # _ \<Rightarrow> Connected peer0)))))"

section \<open>Peer session (package peer)\<close>

text \<open>
  Modelled from the spec: the packet type, its identifiers and the encoders
  \<open>encodePieceRequest\<close> and \<open>encodeInterested\<close> are not among the sources.  Section 4.1
  gives the frames: one identifier byte and a payload, which for \<open>Request\<close> is three
  4-byte big-endian fields (piece index, byte offset, block length) and for \<open>Interested\<close>
  is empty.  The identifiers that share a name with a field of the session or with a
  keyword carry the suffix \<open>_id\<close>.
\<close>

datatype packetID =
    keepAlaive | choke | unchoke | interested_id | notInterested | have_id | bitfield_id
  | request | piece | cancel | port | unknown

record Packet =
  ID :: packetID
  Payload :: "byte list"

definition be32 :: "u32 \<Rightarrow> byte list" where
  "be32 w = map (\<lambda>k. char_of (unat (drop_bit k w))) [24, 16, 8, 0]"

definition encodePieceRequest :: "u32 \<Rightarrow> u32 \<Rightarrow> u32 \<Rightarrow> Packet" where
  "encodePieceRequest index offset size' =
     \<lparr>ID = request, Payload = be32 index @ be32 offset @ be32 size'\<rparr>"

definition encodeInterested :: Packet where
  "encodeInterested = \<lparr>ID = interested_id, Payload = []\<rparr>"

text \<open>
  Modelled from the spec: \<open>Network\<close>, the transport collaborator of section 6, and the
  event type \<open>MSG\<close> are not among the sources.  The transport is the sequence of packets
  handed to its \<open>Send\<close>, oldest first; the channel \<open>msgs\<close> is the sequence of events put
  on it.
\<close>

datatype MSG = handshakeError

record Network =
  sent :: "Packet list"

definition Send :: "Packet \<Rightarrow> Network \<Rightarrow> Network" where
  "Send packet n = n\<lparr>sent := sent n @ [packet]\<rparr>"

record simplePeer =
  msgs :: "MSG list"
  net :: Network
  chocked :: bool
  bitfield :: "byte list"
  interested :: bool


definition send :: "Packet \<Rightarrow> simplePeer \<Rightarrow> simplePeer" where
  "send packet p = p\<lparr>net := Send packet (net p)\<rparr>"

text \<open>The handlers, each taking the session and returning it updated; logging is left out.\<close>

definition onKeepAlive :: "simplePeer \<Rightarrow> simplePeer" where
  "onKeepAlive p = p"

definition onChoke :: "simplePeer \<Rightarrow> simplePeer" where
  "onChoke p = p\<lparr>chocked := True\<rparr>"

definition onUnchoke :: "simplePeer \<Rightarrow> simplePeer" where
  "onUnchoke p =
     (let p = p\<lparr>chocked := False\<rparr>;
          packet = encodePieceRequest 0 0 16384
      in send packet p)"

definition onInterested :: "simplePeer \<Rightarrow> simplePeer" where
  "onInterested p = p\<lparr>interested := True\<rparr>"

definition onNotInterested :: "simplePeer \<Rightarrow> simplePeer" where
  "onNotInterested p = p\<lparr>interested := False\<rparr>"

definition onHave :: "byte list \<Rightarrow> simplePeer \<Rightarrow> simplePeer" where
  "onHave payload p = (let packet = encodeInterested in send packet p)"

definition onBitfield :: "byte list \<Rightarrow> simplePeer \<Rightarrow> simplePeer" where
  "onBitfield bf p =
     (let p = p\<lparr>bitfield := bf\<rparr>;
          packet = encodeInterested
      in send packet p)"

definition onRequest :: "u32 \<times> u32 \<times> u32 \<Rightarrow> simplePeer \<Rightarrow> simplePeer" where
  "onRequest args p = p"

definition onPiece :: "u32 \<times> u32 \<times> byte list \<Rightarrow> simplePeer \<Rightarrow> simplePeer" where
  "onPiece args p = p"

definition onCancel :: "simplePeer \<Rightarrow> simplePeer" where
  "onCancel p = p"

definition onPort :: "simplePeer \<Rightarrow> simplePeer" where
  "onPort p = p"

definition onUnknown :: "simplePeer \<Rightarrow> simplePeer" where
  "onUnknown p = p"

definition NewPacket :: "extern \<Rightarrow> Packet \<Rightarrow> simplePeer \<Rightarrow> simplePeer" where
  "NewPacket X packet p =
     (case ID packet of
        keepAlaive \<Rightarrow> onKeepAlive p
      | choke \<Rightarrow> onChoke p
      | unchoke \<Rightarrow> onUnchoke p
      | interested_id \<Rightarrow> onInterested p
      | notInterested \<Rightarrow> onNotInterested p
      | have_id \<Rightarrow> onHave (Payload packet) p
      | bitfield_id \<Rightarrow> onBitfield (Payload packet) p
      | request \<Rightarrow> onRequest (decodeRequest X (Payload packet)) p
      | piece \<Rightarrow> onPiece (decodePiece X (Payload packet)) p
      | cancel \<Rightarrow> onCancel p
      | port \<Rightarrow> onPort p
      | unknown \<Rightarrow> onUnknown p)"

text \<open>
  A session processes its inbound packets in the order of arrival.  \<open>sends\<close> lists, for a
  sequence of inbound packets, every packet the session hands to the transport, each with
  the value of the \<open>chocked\<close> flag in the state that the handler sending it leaves
  (a handler sends as its last statement, after its assignments).
\<close>

fun run :: "extern \<Rightarrow> Packet list \<Rightarrow> simplePeer \<Rightarrow> simplePeer" where
  "run X [] p = p"
| "run X (packet # rest) p = run X rest (NewPacket X packet p)"

fun sends :: "extern \<Rightarrow> Packet list \<Rightarrow> simplePeer \<Rightarrow> (bool \<times> Packet) list" where
  "sends X [] p = []"
| "sends X (packet # rest) p =
     (let p' = NewPacket X packet p;
          new = drop (length (sent (net p))) (sent (net p'))
      in map (\<lambda>q. (chocked p', q)) new @ sends X rest p')"

section \<open>Sample inputs\<close>

text \<open>An \<open>Info\<close> with the given total length and piece size, for the examples below.\<close>

definition mkInfo :: "go_int \<Rightarrow> go_int \<Rightarrow> Info" where
  "mkInfo len ps =
     \<lparr>Announce = ''http://tracker/announce'', AnnounceList = [], PieceSize = ps, Length = len,
      Name = ''name'', files = [], PieceHashes = [], InfoHash = [], ChunkSize = chunkSize\<rparr>"

text \<open>
  A single-file torrent as the parser would deliver it, with the given piece length, and
  collaborators that deliver it: the file system and the tracker answer without fault,
  the tracker's peer list as given.  The stand-in for SHA-1 returns a fixed 20-byte value.
\<close>

definition sampleTorrent :: "go_int \<Rightarrow> Bencode" where
  "sampleTorrent pieceLength =
     bDict [(''announce'', bStr ''http://tracker/announce''),
            (''info'', bDict [(''piece length'', bInt pieceLength), (''length'', bInt 5),
                              (''name'', bStr ''name''),
                              (''pieces'', bStr ''0123456789abcdefghij'')])]"

definition sampleExtern :: "go_int \<Rightarrow> PeerInfo list \<Rightarrow> extern" where
  "sampleExtern pieceLength peers =
     \<lparr>Parse = (\<lambda>s. Inr (sampleTorrent pieceLength)),
      String = (\<lambda>b. ''d4:name4:namee''),
      PrettyString = (\<lambda>b. ''''),
      sha1 = (\<lambda>s. replicate 20 (CHR ''h'')),
      url_Parse = (\<lambda>s. Inr \<lparr>Scheme = ''http'', Host = ''tracker'', Path = ''/announce'', RawQuery = ''''\<rparr>),
      Encode = (\<lambda>v. concat (map (\<lambda>(k, vs). k @ ''='' @ concat vs @ ''&'') v)),
      url_String = (\<lambda>u. Scheme u @ ''://'' @ Host u @ Path u @ ''?'' @ RawQuery u),
      ReadFile = (\<lambda>path. Inr ''torrent file''),
      http_Get = (\<lambda>u. Inr \<lparr>StatusCode = 200, Body = Inr ''tracker answer''\<rparr>),
      TrackerRspDecode = (\<lambda>s. Inr \<lparr>PeersInfo = peers\<rparr>),
      decodeRequest = (\<lambda>b. (0, 0, 0)),
      decodePiece = (\<lambda>b. (0, 0, []))\<rparr>"


definition sampleConf :: Configuration where
  "sampleConf = \<lparr>TorrentPath = ''file.torrent'', PeerID = ''-GT0001-000000000001'', Port = 6881\<rparr>"

definition sampleState :: State where
  "sampleState = \<lparr>Uploaded = 0, Downloaded = 0, Left = 5\<rparr>"


section \<open>Piece arithmetic\<close>

subsection \<open>Signed 64-bit quotient and remainder on non-negative operands\<close>

lemma sint_word_of_int_64:
  "- (2 ^ 63) \<le> k \<Longrightarrow> k < 2 ^ 63 \<Longrightarrow> sint (word_of_int k :: go_int) = k"
  by (simp add: sint_sbintrunc' signed_take_bit_int_eq_self)

lemma sint_bounds_64: "- (2 ^ 63) \<le> sint (w :: go_int)" "sint (w :: go_int) < 2 ^ 63"
  using sint_ge [of w] sint_lt [of w] by simp_all

lemma sint_go_quot_nonneg:
  assumes "0 \<le> sint a" "0 < sint b"
  shows "sint (go_quot a b) = sint a div sint b"
proof -
  have eq: "sint a sdiv sint b = sint a div sint b"
    using assms by (simp add: signed_divide_int_def sgn_if)
  have "0 \<le> sint a div sint b"
    using assms by (simp add: pos_imp_zdiv_nonneg_iff)
  moreover have "sint a div sint b \<le> sint a"
    using zdiv_mono2 [of "sint a" 1 "sint b"] assms by simp
  ultimately show ?thesis
    unfolding go_quot_def eq using sint_bounds_64 [of a]
    by (intro sint_word_of_int_64) linarith+
qed

lemma sint_go_rem_nonneg:
  assumes "0 \<le> sint a" "0 < sint b"
  shows "sint (go_rem a b) = sint a mod sint b"
proof -
  have eq: "sint a smod sint b = sint a mod sint b"
    using assms by (simp add: signed_modulo_int_def sgn_if)
  have "0 \<le> sint a mod sint b" "sint a mod sint b < sint b"
    using assms by simp_all
  then show ?thesis
    unfolding go_rem_def eq using sint_bounds_64 [of b]
    by (intro sint_word_of_int_64) linarith+
qed

lemma go_rem_eq_0_iff:
  assumes "0 \<le> sint a" "0 < sint b"
  shows "go_rem a b = 0 \<longleftrightarrow> sint a mod sint b = 0"
proof -
  have eq: "sint a smod sint b = sint a mod sint b"
    using assms by (simp add: signed_modulo_int_def sgn_if)
  show ?thesis
  proof
    assume "go_rem a b = 0"
    then have "sint (go_rem a b) = 0" by simp
    then show "sint a mod sint b = 0"
      using assms by (simp add: sint_go_rem_nonneg)
  next
    assume "sint a mod sint b = 0"
    then show "go_rem a b = 0"
      by (simp add: go_rem_def eq)
  qed
qed

lemma ceiling_div_pos:
  assumes "0 < (b::int)"
  shows "\<lceil>real_of_int a / real_of_int b\<rceil> = (if a mod b = 0 then a div b else a div b + 1)"
proof -
  have "\<lceil>real_of_int a / real_of_int b\<rceil> = - (- a div b)"
    by (rule ceiling_divide_eq_div)
  also have "\<dots> = (if a mod b = 0 then a div b else a div b + 1)"
    using assms by (simp add: zdiv_zminus1_eq_if)
  finally show ?thesis .
qed

lemma sint_succ_quot:
  assumes "0 \<le> sint a" "0 < sint b" "sint a mod sint b \<noteq> 0"
  shows "sint (go_quot a b + 1) = sint a div sint b + 1"
proof -
  define q where "q = sint a div sint b"
  have b2: "2 \<le> sint b"
  proof (rule ccontr)
    assume "\<not> 2 \<le> sint b"
    with assms(2) have "sint b = 1" by linarith
    with assms(3) show False by simp
  qed
  have q_le: "q \<le> sint a div 2"
    unfolding q_def using assms(1) b2 by (intro zdiv_mono2) simp_all
  have q_ge: "0 \<le> q"
    unfolding q_def using assms by (simp add: pos_imp_zdiv_nonneg_iff)
  have "sint a < 9223372036854775808"
    using sint_bounds_64(2) [of a] by simp
  then have "sint a div 2 < 4611686018427387904" by linarith
  with q_le q_ge have "- 9223372036854775808 \<le> q + 1" "q + 1 < 9223372036854775808"
    by linarith+
  then have rng: "- (2 ^ 63) \<le> q + 1" "q + 1 < 2 ^ 63"
    by simp_all
  have eq: "sint a sdiv sint b = q"
    unfolding q_def using assms by (simp add: signed_divide_int_def sgn_if)
  have "go_quot a b + 1 = word_of_int (q + 1)"
    by (simp add: go_quot_def eq)
  then have "sint (go_quot a b + 1) = q + 1"
    using rng by (simp only: sint_word_of_int_64)
  then show ?thesis by (simp add: q_def)
qed


subsection \<open>The number of pieces and the size of the last one\<close>

text \<open>
  Claim C1, as far as it holds.  For every \<open>Info\<close> with \<open>PieceSize > 0\<close> and \<open>Length \<ge> 0\<close>,
  \<open>CalculateLastPieceSize\<close> returns a pair \<open>(lastPieceSize, numberOfPieces)\<close> in which
  \<open>numberOfPieces\<close> is the ceiling of \<open>Length / PieceSize\<close> and \<open>lastPieceSize\<close> is
  \<open>Length mod PieceSize\<close>, or the whole \<open>PieceSize\<close> when that remainder is zero.
\<close>

theorem CalculateLastPieceSize_nonneg_length:
  assumes "0 < sint (PieceSize info)" and "0 \<le> sint (Length info)"
  shows "\<exists>lastPieceSize numberOfPieces.
           CalculateLastPieceSize info = Inr (lastPieceSize, numberOfPieces) \<and>
           sint numberOfPieces =
             \<lceil>real_of_int (sint (Length info)) / real_of_int (sint (PieceSize info))\<rceil> \<and>
           sint lastPieceSize =
             (if sint (Length info) mod sint (PieceSize info) = 0 then sint (PieceSize info)
              else sint (Length info) mod sint (PieceSize info))"
proof -
  let ?L = "Length info" and ?P = "PieceSize info"
  have P0: "?P \<noteq> 0" using assms(1) by auto
  show ?thesis
  proof (cases "sint ?L mod sint ?P = 0")
    case True
    then have "go_rem ?L ?P = 0"
      using assms by (simp add: go_rem_eq_0_iff)
    then show ?thesis
      using True assms P0
      by (simp add: CalculateLastPieceSize_def Let_def sint_go_quot_nonneg ceiling_div_pos
          del: of_int_sint)
  next
    case False
    then have "go_rem ?L ?P \<noteq> 0"
      using assms by (simp add: go_rem_eq_0_iff)
    then show ?thesis
      using False assms P0
      by (simp add: CalculateLastPieceSize_def Let_def sint_succ_quot sint_go_rem_nonneg
          ceiling_div_pos del: of_int_sint)
  qed
qed

theorem CalculateLastPieceSize_nonneg_length_witness:
  "0 < sint (PieceSize (mkInfo 10 4)) \<and> 0 \<le> sint (Length (mkInfo 10 4)) \<and>
   (\<exists>lastPieceSize numberOfPieces.
      CalculateLastPieceSize (mkInfo 10 4) = Inr (lastPieceSize, numberOfPieces) \<and>
      sint numberOfPieces = 3 \<and> sint lastPieceSize = 2)"
proof -
  have p: "0 < sint (PieceSize (mkInfo 10 4))" by (simp add: mkInfo_def)
  have l: "0 \<le> sint (Length (mkInfo 10 4))" by (simp add: mkInfo_def)
  show ?thesis
    using p l CalculateLastPieceSize_nonneg_length [OF p l] by (simp add: mkInfo_def)
qed

text \<open>
  Claim C1 as it is written, for every \<open>Info\<close> with \<open>PieceSize > 0\<close>, fails on a negative
  \<open>Length\<close> that is not a multiple of the piece size: Go's division truncates towards
  zero, so for \<open>Length = -5\<close> and \<open>PieceSize = 3\<close> the quotient \<open>-1\<close> is incremented to
  \<open>0\<close>, while the ceiling of \<open>-5/3\<close> is \<open>-1\<close>.
\<close>

theorem CalculateLastPieceSize_negative_length_counterexample:
  "0 < sint (PieceSize (mkInfo (- 5) 3)) \<and>
   CalculateLastPieceSize (mkInfo (- 5) 3) = Inr (- 2, 0) \<and>
   \<lceil>real_of_int (sint (Length (mkInfo (- 5) 3))) /
    real_of_int (sint (PieceSize (mkInfo (- 5) 3)))\<rceil> = - 1 \<and>
   sint (0 :: go_int) \<noteq> - 1"
  by (simp add: mkInfo_def CalculateLastPieceSize_def go_rem_def go_quot_def
      signed_divide_int_def signed_modulo_int_def)

section \<open>Piece hashes\<close>

lemma pieceHashes_loop_eq:
  assumes "0 \<le> i" and "i \<le> int (length pieces)" and "(int (length pieces) - i) mod 20 = 0"
  shows "pieceHashes_loop pieces i hashes =
           hashes @ map (\<lambda>k. take 20 (drop (nat i + 20 * k) pieces))
                        [0..<nat ((int (length pieces) - i) div 20)]"
  using assms
proof (induction pieces i hashes rule: pieceHashes_loop.induct)
  case (1 pieces i hashes)
  let ?n = "int (length pieces)"
  show ?case
  proof (cases "i \<le> ?n - 20")
    case True
    have step: "(?n - (i + 20)) mod 20 = 0"
      using "1.prems"(3) by presburger
    have cnt: "nat ((?n - i) div 20) = Suc (nat ((?n - (i + 20)) div 20))"
      using True "1.prems" by (simp add: nat_diff_distrib')
    have idx: "\<And>k. nat (i + 20) + 20 * k = nat i + 20 * Suc k"
      using "1.prems"(1) by (simp add: nat_add_distrib)
    have "pieceHashes_loop pieces i hashes =
            pieceHashes_loop pieces (i + 20) (hashes @ [substr pieces i (i + 20)])"
      using True by (subst pieceHashes_loop.simps) simp
    also have "\<dots> = (hashes @ [substr pieces i (i + 20)]) @
                 map (\<lambda>k. take 20 (drop (nat (i + 20) + 20 * k) pieces))
                     [0..<nat ((?n - (i + 20)) div 20)]"
      using True "1.prems"(1) step by (intro "1.IH") simp_all
    also have "\<dots> = hashes @ map (\<lambda>k. take 20 (drop (nat i + 20 * k) pieces))
                 [0..<nat ((?n - i) div 20)]"
      unfolding cnt idx
      by (simp add: substr_def upt_rec [of 0 "Suc _"] map_Suc_upt [symmetric] del: upt_Suc)
    finally show ?thesis .
  next
    case False
    then have "?n - i < 20" by simp
    with "1.prems" have "?n - i = 0" by presburger
    then show ?thesis
      using False by (subst pieceHashes_loop.simps) simp
  qed
qed


text \<open>
  Claim C6.  \<open>pieceHashes s\<close> is an error exactly when the length of \<open>s\<close> is not a multiple
  of 20; when it succeeds it returns \<open>len(s)/20\<close> digests, each 20 bytes long, the \<open>i\<close>-th
  being the bytes \<open>[20*i, 20*i+20)\<close> of \<open>s\<close>.
\<close>

theorem pieceHashes_spec:
  "(isl (pieceHashes s) \<longleftrightarrow> length s mod 20 \<noteq> 0) \<and>
   (\<forall>hs. pieceHashes s = Inr hs \<longrightarrow>
      length hs = length s div 20 \<and>
      (\<forall>i < length hs. length (hs ! i) = 20 \<and> hs ! i = take 20 (drop (20 * i) s)))"
proof (cases "length s mod 20 = 0")
  case False
  then have "int (length s) mod 20 \<noteq> 0" by presburger
  then show ?thesis using False by (simp add: pieceHashes_def)
next
  case True
  then have m: "int (length s) mod 20 = 0" by presburger
  have d: "nat (int (length s) div 20) = length s div 20"
    by (simp add: zdiv_int [symmetric] del: of_nat_div)
  have eq: "pieceHashes s = Inr (map (\<lambda>k. take 20 (drop (20 * k) s)) [0..<length s div 20])"
    using pieceHashes_loop_eq [of 0 s "[]"] m d by (simp add: pieceHashes_def)
  have len: "length (take 20 (drop (20 * i) s)) = 20" if "i < length s div 20" for i
  proof -
    have "20 * (length s div 20) \<le> length s" by simp
    with that have "20 * i + 20 \<le> length s" by linarith
    then show ?thesis by simp
  qed
  have "isl (pieceHashes s) \<longleftrightarrow> length s mod 20 \<noteq> 0"
    using True by (simp add: eq)
  moreover have "length hs = length s div 20 \<and>
      (\<forall>i < length hs. length (hs ! i) = 20 \<and> hs ! i = take 20 (drop (20 * i) s))"
    if "pieceHashes s = Inr hs" for hs
  proof -
    from that eq have hs: "hs = map (\<lambda>k. take 20 (drop (20 * k) s)) [0..<length s div 20]"
      by simp
    show ?thesis
      unfolding hs by (simp add: len)
  qed
  ultimately show ?thesis by blast
qed

theorem pieceHashes_spec_witness:
  "pieceHashes ''0123456789abcdefghijABCDEFGHIJ9876543210'' =
     Inr [''0123456789abcdefghij'', ''ABCDEFGHIJ9876543210''] \<and>
   length [''0123456789abcdefghij'', ''ABCDEFGHIJ9876543210''] =
     length ''0123456789abcdefghijABCDEFGHIJ9876543210'' div 20 \<and>
   [''0123456789abcdefghij'', ''ABCDEFGHIJ9876543210''] ! 1 =
     take 20 (drop (20 * 1) ''0123456789abcdefghijABCDEFGHIJ9876543210'') \<and>
   \<not> isl (pieceHashes ''0123456789abcdefghijABCDEFGHIJ9876543210'') \<and>
   isl (pieceHashes ''0123456789abcdefghijABCDEFGHIJ987654321'')"
proof -
  have e: "pieceHashes ''0123456789abcdefghijABCDEFGHIJ9876543210'' =
     Inr [''0123456789abcdefghij'', ''ABCDEFGHIJ9876543210'']"
    by code_simp
  show ?thesis
    using e pieceHashes_spec [of "''0123456789abcdefghijABCDEFGHIJ9876543210''"]
      pieceHashes_spec [of "''0123456789abcdefghijABCDEFGHIJ987654321''"]
    by simp
qed

section \<open>Decoding a torrent\<close>

text \<open>What a successful \<open>Decode\<close> tells about the parsed torrent.\<close>

lemma Decode_InrD:
  assumes "Decode X str = Inr info"
  shows "\<exists>dict infoDict.
           Parse X str = Inr (bDict dict) \<and>
           get dict ''info'' = Some (bDict infoDict) \<and>
           get infoDict ''piece length'' = Some (bInt (PieceSize info)) \<and>
           InfoHash info = sha1 X (String X (bDict infoDict))"
  using assms
  by (auto simp: Decode_def fromDict_def intValue_def Let_def
      split: sum.splits Bencode.splits prod.splits option.splits bool.splits if_splits)

text \<open>
  Claim C7.  Whenever \<open>Decode\<close> succeeds, the \<open>InfoHash\<close> of the returned \<open>Info\<close> is the
  SHA-1 digest of \<open>infoDict.String()\<close>, the string form of the torrent's info dictionary;
  it is 20 bytes long, as every SHA-1 digest is.
\<close>

theorem Decode_InfoHash:
  assumes "Decode X str = Inr info"
  shows "\<exists>dict infoDict.
           Parse X str = Inr (bDict dict) \<and>
           get dict ''info'' = Some (bDict infoDict) \<and>
           InfoHash info = sha1 X (String X (bDict infoDict)) \<and>
           ((\<forall>s. length (sha1 X s) = 20) \<longrightarrow> length (InfoHash info) = 20)"
  using Decode_InrD [OF assms] by auto

text \<open>The sample torrent decodes, whatever its piece length.\<close>

lemma Decode_sample:
  "Decode (sampleExtern v peers) str =
     Inr \<lparr>Announce = ''http://tracker/announce'', AnnounceList = [], PieceSize = v, Length = 5,
          Name = ''name'', files = [], PieceHashes = [''0123456789abcdefghij''],
          InfoHash = replicate 20 (CHR ''h''), ChunkSize = chunkSize\<rparr>"
proof -
  have ph: "pieceHashes ''0123456789abcdefghij'' = Inr [''0123456789abcdefghij'']"
    by code_simp
  show ?thesis
    by (simp add: Decode_def sampleExtern_def sampleTorrent_def strValue_def fromDict_def get_def
        announceList_def intValue_def files'_def ph)
qed

theorem Decode_InfoHash_witness:
  "Decode (sampleExtern 4 []) ''torrent file'' =
     Inr \<lparr>Announce = ''http://tracker/announce'', AnnounceList = [], PieceSize = 4, Length = 5,
          Name = ''name'', files = [], PieceHashes = [''0123456789abcdefghij''],
          InfoHash = replicate 20 (CHR ''h''), ChunkSize = chunkSize\<rparr> \<and>
   (\<exists>dict infoDict.
      Parse (sampleExtern 4 []) ''torrent file'' = Inr (bDict dict) \<and>
      get dict ''info'' = Some (bDict infoDict) \<and>
      replicate 20 (CHR ''h'') =
        sha1 (sampleExtern 4 []) (String (sampleExtern 4 []) (bDict infoDict)))"
  using Decode_InfoHash [OF Decode_sample [of 4 "[]" "''torrent file''"]] Decode_sample [of 4 "[]" "''torrent file''"]
  by simp

section \<open>Division by a zero piece size\<close>

text \<open>
  Claim C10, as far as it holds.  \<open>CalculateLastPieceSize\<close> panics with a division by zero
  exactly when \<open>PieceSize = 0\<close>, and returns for every other piece size, the positive ones
  among them; \<open>Decode\<close> takes the piece length from the torrent as it stands, so a torrent
  with piece length 0 decodes into an \<open>Info\<close> on which the function panics.
\<close>

theorem CalculateLastPieceSize_panics_iff:
  "(CalculateLastPieceSize info = Inl (Panic ''integer divide by zero'') \<longleftrightarrow> PieceSize info = 0) \<and>
   (PieceSize info \<noteq> 0 \<longrightarrow> (\<exists>r. CalculateLastPieceSize info = Inr r)) \<and>
   (\<exists>info0. Decode (sampleExtern 0 []) ''torrent file'' = Inr info0 \<and> PieceSize info0 = 0 \<and>
      CalculateLastPieceSize info0 = Inl (Panic ''integer divide by zero''))"
  by (simp add: Decode_sample CalculateLastPieceSize_def Let_def)

theorem CalculateLastPieceSize_panics_iff_witness:
  "PieceSize (mkInfo 10 4) \<noteq> 0 \<and> (\<exists>r. CalculateLastPieceSize (mkInfo 10 4) = Inr r)"
proof -
  have "PieceSize (mkInfo 10 4) \<noteq> 0" by (simp add: mkInfo_def)
  then show ?thesis
    using CalculateLastPieceSize_panics_iff [of "mkInfo 10 4"] by blast
qed

text \<open>
  Claim C10 as it is written makes \<open>PieceSize > 0\<close> the only case in which the function
  returns; a negative piece size divides without a panic as well.
\<close>

theorem CalculateLastPieceSize_negative_piece_size_counterexample:
  "\<not> 0 < sint (PieceSize (mkInfo 5 (- 1))) \<and>
   CalculateLastPieceSize (mkInfo 5 (- 1)) = Inr (- 1, - 5)"
  by (simp add: mkInfo_def CalculateLastPieceSize_def go_rem_def go_quot_def
      signed_divide_int_def signed_modulo_int_def)

section \<open>The tracker request\<close>

text \<open>
  Claim C3.  For every \<open>Info\<close>, state, peer id and port, the URL built by \<open>prepareURL\<close>
  carries \<open>info_hash = lol\<close>, a fixed string that does not depend on the \<open>InfoHash\<close> of
  the torrent, while \<open>peer_id\<close> and \<open>port\<close> are the ones supplied (by \<open>NewTracker\<close>: those
  of the configuration) and \<open>uploaded\<close>, \<open>downloaded\<close> and \<open>left\<close> those of the state.
\<close>

theorem prepareURL_params:
  "prepareURL X initState peerID port' info =
     (case url_Parse X (Announce info) of
        Inl err \<Rightarrow> Inl (Error (''Malformed URL: '' @ err))
      | Inr baseURL \<Rightarrow>
          Inr (url_String X (baseURL\<lparr>RawQuery := Encode X
            [(''info_hash'', [''lol'']), (''peer_id'', [peerID]), (''port'', [Itoa port']),
             (''compact'', [''1'']), (''event'', [''started'']),
             (''uploaded'', [Itoa (Uploaded initState)]),
             (''downloaded'', [Itoa (Downloaded initState)]),
             (''left'', [Itoa (Left initState)])]\<rparr>))) \<and>
   prepareURL X initState peerID port' (info\<lparr>InfoHash := h\<rparr>) =
     prepareURL X initState peerID port' info \<and>
   NewTracker X info initState conf =
     (case prepareURL X initState (PeerID conf) (Port conf) info of
        Inl err \<Rightarrow> Inl err
      | Inr u \<Rightarrow> Inr \<lparr>url = u\<rparr>)"
  by (simp add: prepareURL_def NewTracker_def split: sum.splits)

section \<open>Start-up with an empty peer list\<close>

lemma main_empty_peers:
  assumes "ReadFile X (TorrentPath conf) = Inr data" and "Decode X data = Inr info"
    and "NewTracker X info initState conf = Inr t" and "Peers X t = Inr []"
  shows "main X conf initState = Panicked ''index out of range [0] with length 0''"
  using assms by (simp add: main_def)

lemma showNat_digit: "n < 10 \<Longrightarrow> showNat n = [char_of (48 + n)]"
  by (subst showNat.simps) simp

lemma showNat_step: "10 \<le> n \<Longrightarrow> showNat n = showNat (n div 10) @ [char_of (48 + n mod 10)]"
  by (subst showNat.simps) simp

lemma Itoa_samples: "Itoa 6881 = ''6881''" "Itoa 0 = ''0''" "Itoa 5 = ''5''"
  by (simp_all add: Itoa_def showNat_step showNat_digit char_of_def bit_0)

lemma Peers_sample: "Peers (sampleExtern v peers) t = Inr peers"
  by (simp add: Peers_def sampleExtern_def)

lemma NewTracker_sample:
  "NewTracker (sampleExtern v peers) info sampleState sampleConf =
     Inr \<lparr>url = ''http://tracker/announce?info_hash=lol&peer_id=-GT0001-000000000001&port=6881&compact=1&event=started&uploaded=0&downloaded=0&left=5&''\<rparr>"
  by (simp add: NewTracker_def prepareURL_def sampleExtern_def sampleConf_def sampleState_def
      Itoa_samples)

text \<open>
  Claim C4 does not hold of the code.  When the tracker answers with status 200 and its
  answer decodes without error into an empty peer list, \<open>Peers\<close> returns the empty list
  and no error, and \<open>main\<close> panics at \<open>peers[0]\<close> rather than report a failed start.
\<close>

theorem main_empty_peer_list_panics:
  "Peers (sampleExtern 4 [])
     \<lparr>url = ''http://tracker/announce?info_hash=lol&peer_id=-GT0001-000000000001&port=6881&compact=1&event=started&uploaded=0&downloaded=0&left=5&''\<rparr> = Inr [] \<and>
   main (sampleExtern 4 []) sampleConf sampleState =
     Panicked ''index out of range [0] with length 0''"
proof -
  have rf: "ReadFile (sampleExtern 4 []) (TorrentPath sampleConf) = Inr ''torrent file''"
    by (simp add: sampleExtern_def)
  show ?thesis
    by (simp add: main_def rf Decode_sample NewTracker_sample Peers_sample)
qed

lemma main_sample_connects:
  "main (sampleExtern 4 [(''10.0.0.1'', 6881)]) sampleConf sampleState = Connected (''10.0.0.1'', 6881)"
proof -
  have rf: "ReadFile (sampleExtern 4 [(''10.0.0.1'', 6881)]) (TorrentPath sampleConf) = Inr ''torrent file''"
    by (simp add: sampleExtern_def)
  show ?thesis
    by (simp add: main_def rf Decode_sample NewTracker_sample Peers_sample)
qed

section \<open>The peer session\<close>

lemmas handler_defs =
  onKeepAlive_def onChoke_def onUnchoke_def onInterested_def onNotInterested_def onHave_def
  onBitfield_def onRequest_def onPiece_def onCancel_def onPort_def onUnknown_def
  send_def Send_def

lemma be32_0: "be32 0 = map char_of [0, 0, 0, 0 :: nat]"
  by (simp add: be32_def)

lemma be32_16384: "be32 16384 = map char_of [0, 0, 64, 0 :: nat]"
  by (simp add: be32_def drop_bit_eq_div)

text \<open>
  Claim C2.  On an \<open>Unchoke\<close> message the session hands to the transport the request
  for piece 0, offset 0 and block length 16384, whatever its state.
\<close>

theorem onUnchoke_requests_block_0_0:
  "NewPacket X \<lparr>ID = unchoke, Payload = payload\<rparr> p = onUnchoke p \<and>
   sent (net (onUnchoke p)) = sent (net p) @ [encodePieceRequest 0 0 16384] \<and>
   ID (encodePieceRequest 0 0 16384) = request \<and>
   Payload (encodePieceRequest 0 0 16384) =
     map char_of [0, 0, 0, 0, 0, 0, 0, 0, 0, 0, 64, 0 :: nat]"
  by (simp add: NewPacket_def handler_defs encodePieceRequest_def be32_0 be32_16384)

text \<open>
  Claim C8.  \<open>Choke\<close> sets the \<open>chocked\<close> flag and \<open>Unchoke\<close> clears it, \<open>Interested\<close> sets
  the \<open>interested\<close> flag and \<open>NotInterested\<close> clears it; each handler changes nothing
  else of the session, apart from the packet that \<open>onUnchoke\<close> hands to the session's
  own transport.
\<close>

theorem flag_handlers:
  "NewPacket X \<lparr>ID = choke, Payload = payload\<rparr> p = onChoke p \<and>
   NewPacket X \<lparr>ID = unchoke, Payload = payload\<rparr> p = onUnchoke p \<and>
   NewPacket X \<lparr>ID = interested_id, Payload = payload\<rparr> p = onInterested p \<and>
   NewPacket X \<lparr>ID = notInterested, Payload = payload\<rparr> p = onNotInterested p \<and>
   chocked (onChoke p) \<and> \<not> chocked (onUnchoke p) \<and>
   interested (onInterested p) \<and> \<not> interested (onNotInterested p) \<and>
   onChoke p = p\<lparr>chocked := True\<rparr> \<and>
   onUnchoke p = p\<lparr>chocked := False, net := Send (encodePieceRequest 0 0 16384) (net p)\<rparr> \<and>
   onInterested p = p\<lparr>interested := True\<rparr> \<and>
   onNotInterested p = p\<lparr>interested := False\<rparr>"
  by (simp add: NewPacket_def handler_defs)

text \<open>
  Claim C9.  A \<open>Have\<close> message makes the session send \<open>Interested\<close> and leaves
  \<open>chocked\<close>, \<open>bitfield\<close>, \<open>interested\<close> and \<open>msgs\<close> as they were; the payload of the
  message plays no part.
\<close>

theorem onHave_frame:
  "NewPacket X \<lparr>ID = have_id, Payload = payload\<rparr> p = onHave payload p \<and>
   sent (net (onHave payload p)) = sent (net p) @ [encodeInterested] \<and>
   chocked (onHave payload p) = chocked p \<and>
   bitfield (onHave payload p) = bitfield p \<and>
   interested (onHave payload p) = interested p \<and>
   msgs (onHave payload p) = msgs p \<and>
   onHave payload p = onHave payload' p"
  by (simp add: NewPacket_def handler_defs)

text \<open>
  A step only ever appends to the transport, so \<open>sends\<close> lists exactly the packets that a
  run hands to it, in order.
\<close>

lemma NewPacket_appends:
  "\<exists>new. sent (net (NewPacket X packet p)) = sent (net p) @ new"
  by (cases "ID packet") (simp_all add: NewPacket_def handler_defs)

lemma sends_run:
  "sent (net (run X packets p)) = sent (net p) @ map snd (sends X packets p)"
proof (induction packets arbitrary: p)
  case Nil
  show ?case by simp
next
  case (Cons packet rest)
  obtain new where new: "sent (net (NewPacket X packet p)) = sent (net p) @ new"
    using NewPacket_appends by blast
  show ?case
    using Cons.IH [of "NewPacket X packet p"] new
    by (simp add: Let_def comp_def)
qed




end
